theory Spec2Isabelle
  imports Complex_Main
begin

section \<open>The ETL job of \<^verbatim>\<open>etl.py\<close>\<close>

text \<open>
  \<^verbatim>\<open>etl.py\<close> is a PySpark script: two functions, \<^verbatim>\<open>process_song_data\<close> and
  \<^verbatim>\<open>process_log_data\<close>, each a straight line of data-frame statements, and a
  \<^verbatim>\<open>main\<close> that calls one of them. The embedding follows the script statement by
  statement. A Python statement that can raise is a computation that returns either the
  error or its value, together with the world it leaves behind; an exception ends the
  function at that statement, and whatever was written before it stays written.
\<close>

subsection \<open>Cells, data frames, errors\<close>

text \<open>
  A data frame is schema-on-read: a list of column names and rows of cells aligned with
  it. A cell is a JSON scalar: null, a string, an integer or a fractional number.
\<close>

datatype val = Null | Str string | Long int | Double real

record dataframe =
  columns :: "string list"
  rows :: "val list list"

text \<open>
  The exceptions of the run. The first five are Python's own; \<open>AnalysisException\<close>
  is the engine's (an unresolved column, a path that does not exist, a destination that
  already exists); \<open>Py4JError\<close> is the bridge's, for an argument the engine's function
  does not take; \<open>PythonException\<close> is a failure inside a user-defined function.
\<close>

datatype error =
    NameError string
  | AttributeError string
  | TypeError string
  | KeyError string
  | ValueError string
  | AnalysisException string
  | Py4JError string
  | PythonException string

subsection \<open>The world of a run\<close>

text \<open>
  What the script reads and what it leaves behind:
  \<^item> \<open>config\<close>: the parsed \<^verbatim>\<open>dl.cfg\<close>, section by section, as \<^verbatim>\<open>config[s][k]\<close> looks it up;
  \<^item> \<open>environ\<close>: the process environment, which lines 12 and 13 set;
  \<^item> \<open>json\<close>: the input storage, what reading a path (or glob) as JSON yields;
  \<^item> \<open>parquet\<close>: the output storage, each destination with its partition columns and table;
  \<^item> \<open>views\<close>: the session's temporary views;
  \<^item> \<open>calls\<close>: the functions of the script entered so far, oldest first;
  \<^item> \<open>float_of_real\<close>: Python's floating-point rounding, the double nearest to a real
    number (ties to even), \<open>None\<close> beyond the range of doubles; a double is written as
    the real number it denotes;
  \<^item> \<open>int_of_str\<close>: Python's \<^verbatim>\<open>int(s)\<close> on a string, \<open>None\<close> where it raises
    \<^verbatim>\<open>ValueError\<close>;
  \<^item> \<open>fromtimestamp_str\<close>: \<^verbatim>\<open>str(datetime.fromtimestamp(t))\<close> on the worker for a double
    \<open>t\<close>, which depends on the worker's time zone, or the exception that
    \<^verbatim>\<open>fromtimestamp\<close> raises for a \<open>t\<close> out of its range;
  \<^item> \<open>sql_function\<close>: the engine's calendar functions (\<^verbatim>\<open>hour\<close>, \<^verbatim>\<open>dayofmonth\<close>,
    \<^verbatim>\<open>weekofyear\<close>, \<^verbatim>\<open>month\<close>, \<^verbatim>\<open>year\<close>) by name, each from a cell to a cell.
  Standard output (\<^verbatim>\<open>printSchema\<close>, \<^verbatim>\<open>show\<close>) is not part of the world.
\<close>

record world =
  config :: "string \<Rightarrow> (string \<Rightarrow> string option) option"
  environ :: "string \<Rightarrow> string option"
  json :: "string \<Rightarrow> dataframe option"
  parquet :: "string \<Rightarrow> (string list \<times> dataframe) option"
  views :: "string \<Rightarrow> dataframe option"
  calls :: "string list"
  float_of_real :: "real \<Rightarrow> real option"
  int_of_str :: "string \<Rightarrow> int option"
  fromtimestamp_str :: "real \<Rightarrow> error + string"
  sql_function :: "string \<Rightarrow> val \<Rightarrow> val"

type_synonym 'a run = "world \<Rightarrow> (error + 'a) \<times> world"

definition ret :: "'a \<Rightarrow> 'a run" where
  "ret x = (\<lambda>w. (Inr x, w))"

definition raise :: "error \<Rightarrow> 'a run" where
  "raise e = (\<lambda>w. (Inl e, w))"

text \<open>Sequencing: the second statement runs only when the first did not raise.\<close>

definition bind :: "'a run \<Rightarrow> ('a \<Rightarrow> 'b run) \<Rightarrow> 'b run" where
  "bind m k = (\<lambda>w. case m w of (Inl e, w') \<Rightarrow> (Inl e, w') | (Inr x, w') \<Rightarrow> k x w')"

text \<open>Entering a function of the script is recorded in \<open>calls\<close>.\<close>

definition enter :: "string \<Rightarrow> unit run" where
  "enter f = (\<lambda>w. (Inr (), w\<lparr>calls := calls w @ [f]\<rparr>))"

subsection \<open>Name resolution\<close>

text \<open>
  A name that a function neither takes as a parameter nor assigns is looked up in the
  module's globals and then in the builtins; when neither binds it, Python raises
  \<^verbatim>\<open>NameError\<close>. The globals are what lines 1 to 13 import and assign and what the four
  \<^verbatim>\<open>def\<close> statements bind. Names bound in the module are translated directly to the
  definition that models them; \<open>load_global\<close> is used for the names the function bodies
  read without binding them anywhere (\<^verbatim>\<open>songs_tables\<close>, \<^verbatim>\<open>artist_table\<close>, \<^verbatim>\<open>output\<close>,
  \<^verbatim>\<open>dayofweek\<close>, \<^verbatim>\<open>monotonically_increasing_id\<close>).
\<close>

datatype pyobj =
    PyModule string
  | PyClass string
  | PyFunction string
  | PySqlFunction string
  | PyConfigParser
  | PyStr string

definition module_globals :: "(string \<times> pyobj) list" where
  "module_globals =
    [(''configparser'', PyModule ''configparser''),
     (''datetime'', PyClass ''datetime''),
     (''os'', PyModule ''os''),
     (''SparkSession'', PyClass ''SparkSession''),
     (''udf'', PyFunction ''udf''),
     (''col'', PyFunction ''col''),
     (''year'', PySqlFunction ''year''),
     (''month'', PySqlFunction ''month''),
     (''dayofmonth'', PySqlFunction ''dayofmonth''),
     (''hour'', PySqlFunction ''hour''),
     (''weekofyear'', PySqlFunction ''weekofyear''),
     (''date_format'', PyFunction ''date_format''),
     (''config'', PyConfigParser),
     (''create_spark_session'', PyFunction ''create_spark_session''),
     (''process_song_data'', PyFunction ''process_song_data''),
     (''process_log_data'', PyFunction ''process_log_data''),
     (''main'', PyFunction ''main'')]"

text \<open>The builtins the script uses; no builtin of Python has one of the five names above.\<close>

definition python_builtins :: "(string \<times> pyobj) list" where
  "python_builtins = [(''str'', PyClass ''str''), (''int'', PyClass ''int'')]"

definition load_global :: "string \<Rightarrow> pyobj run" where
  "load_global n =
    (case map_of module_globals n of
       Some obj \<Rightarrow> ret obj
     | None \<Rightarrow>
        (case map_of python_builtins n of
           Some obj \<Rightarrow> ret obj
         | None \<Rightarrow> raise (NameError n)))"

text \<open>
  What the script does with such an object. None of the objects a module global can be
  is a data frame, so \<^verbatim>\<open>obj.show(...)\<close> finds no attribute \<^verbatim>\<open>show\<close>;
  \<^verbatim>\<open>os.path.join(obj, b)\<close> takes a string; \<^verbatim>\<open>obj('datetime')\<close> is a column expression
  when \<open>obj\<close> is one of the engine's column functions; \<^verbatim>\<open>obj()\<close> as a column of
  generated identifiers needs a generator, which no global of the module is.
\<close>

definition obj_show :: "pyobj \<Rightarrow> string list \<Rightarrow> unit run" where
  "obj_show obj keywords = raise (AttributeError ''show'')"

definition os_path_join :: "string \<Rightarrow> string \<Rightarrow> string" where
  "os_path_join a b =
    (if b \<noteq> [] \<and> hd b = CHR ''/'' then b
     else if a = [] then b
     else if last a = CHR ''/'' then a @ b
     else a @ ''/'' @ b)"

definition obj_path_join :: "pyobj \<Rightarrow> string \<Rightarrow> string run" where
  "obj_path_join obj b =
    (case obj of
       PyStr a \<Rightarrow> ret (os_path_join a b)
     | _ \<Rightarrow> raise (TypeError ''expected str, bytes or os.PathLike object''))"

definition obj_column_function :: "pyobj \<Rightarrow> (val \<Rightarrow> val) run" where
  "obj_column_function obj =
    (case obj of
       PySqlFunction f \<Rightarrow> (\<lambda>w. (Inr (sql_function w f), w))
     | _ \<Rightarrow> raise (TypeError ''not a column function''))"

definition obj_id_generator :: "pyobj \<Rightarrow> (nat \<Rightarrow> val) run" where
  "obj_id_generator obj = raise (TypeError ''not an identifier generator'')"

subsection \<open>The engine's operations\<close>

text \<open>
  The data-frame operations the script calls, as PySpark documents them. Spark gives no
  order to the rows of a result; the model keeps the order of the input, and the
  theorems speak of the set of rows and of their distinctness only.
\<close>

text \<open>\<^verbatim>\<open>spark.read.json(path)\<close>: a path that does not exist is an \<^verbatim>\<open>AnalysisException\<close>.\<close>

datatype session = SparkSession "(string \<times> string) list"

definition read_json :: "session \<Rightarrow> string \<Rightarrow> dataframe run" where
  "read_json spark path =
    (\<lambda>w. case json w path of
           None \<Rightarrow> (Inl (AnalysisException path), w)
         | Some df \<Rightarrow> (Inr df, w))"

text \<open>The cell of row \<open>r\<close> in the column named \<open>n\<close>, under the column list \<open>cols\<close>.\<close>

definition cell :: "string list \<Rightarrow> val list \<Rightarrow> string \<Rightarrow> val" where
  "cell cols r n = (case map_of (zip cols r) n of Some v \<Rightarrow> v | None \<Rightarrow> Null)"

definition project :: "string list \<Rightarrow> string list \<Rightarrow> val list \<Rightarrow> val list" where
  "project cols names r = map (cell cols r) names"

text \<open>\<^verbatim>\<open>df.select(n1, ..., nk)\<close>: a name that is not a column is an \<^verbatim>\<open>AnalysisException\<close>.\<close>

definition df_select :: "dataframe \<Rightarrow> string list \<Rightarrow> dataframe run" where
  "df_select df names =
    (case find (\<lambda>n. n \<notin> set (columns df)) names of
       Some n \<Rightarrow> raise (AnalysisException n)
     | None \<Rightarrow> ret \<lparr>columns = names, rows = map (project (columns df) names) (rows df)\<rparr>)"

text \<open>\<^verbatim>\<open>df.dropDuplicates()\<close>: one row of each group of equal rows, on all columns.\<close>

definition df_dropDuplicates :: "dataframe \<Rightarrow> dataframe" where
  "df_dropDuplicates df = df\<lparr>rows := remdups (rows df)\<rparr>"

text \<open>\<^verbatim>\<open>df.c\<close>: the column named \<open>c\<close> of \<open>df\<close>, an \<^verbatim>\<open>AttributeError\<close> when there is none.\<close>

definition df_getattr :: "dataframe \<Rightarrow> string \<Rightarrow> string run" where
  "df_getattr df c = (if c \<in> set (columns df) then ret c else raise (AttributeError c))"

text \<open>\<^verbatim>\<open>df.filter(df.c == v)\<close>: the rows whose cell in column \<open>c\<close> equals \<open>v\<close>.\<close>

definition df_filter_eq :: "dataframe \<Rightarrow> string \<Rightarrow> val \<Rightarrow> dataframe" where
  "df_filter_eq df c v = df\<lparr>rows := filter (\<lambda>r. cell (columns df) r c = v) (rows df)\<rparr>"

definition df_printSchema :: "dataframe \<Rightarrow> unit run" where
  "df_printSchema df = ret ()"

text \<open>
  \<^verbatim>\<open>df.show(n=20, truncate=True, vertical=False)\<close>: the method has these three parameters
  and no others, so a call with any other keyword raises \<^verbatim>\<open>TypeError\<close> when Python binds
  the arguments. \<open>keywords\<close> are the keyword names of the call.
\<close>

definition df_show :: "dataframe \<Rightarrow> string list \<Rightarrow> unit run" where
  "df_show df keywords =
    (case find (\<lambda>k. k \<notin> set [''n'', ''truncate'', ''vertical'']) keywords of
       Some k \<Rightarrow> raise (TypeError k)
     | None \<Rightarrow> ret ())"

definition df_createOrReplaceTempView :: "dataframe \<Rightarrow> string \<Rightarrow> unit run" where
  "df_createOrReplaceTempView df name = (\<lambda>w. (Inr (), w\<lparr>views := (views w)(name \<mapsto> df)\<rparr>))"

text \<open>
  \<^verbatim>\<open>df.write.partitionBy(cols).parquet(path, mode)\<close>. A partition column that is not a
  column of \<open>df\<close> is an \<^verbatim>\<open>AnalysisException\<close>. Mode \<^verbatim>\<open>overwrite\<close> replaces what the
  destination holds, \<^verbatim>\<open>append\<close> adds the rows to it, \<^verbatim>\<open>ignore\<close> leaves an existing
  destination alone, \<^verbatim>\<open>error\<close> and \<^verbatim>\<open>errorifexists\<close> refuse an existing destination.
\<close>

definition write_parquet :: "dataframe \<Rightarrow> string list \<Rightarrow> string \<Rightarrow> string \<Rightarrow> unit run" where
  "write_parquet df partition_cols path mode =
    (\<lambda>w. case find (\<lambda>c. c \<notin> set (columns df)) partition_cols of
           Some c \<Rightarrow> (Inl (AnalysisException c), w)
         | None \<Rightarrow>
            (if mode = ''overwrite'' then
               (Inr (), w\<lparr>parquet := (parquet w)(path \<mapsto> (partition_cols, df))\<rparr>)
             else if mode = ''append'' then
               (case parquet w path of
                  None \<Rightarrow> (Inr (), w\<lparr>parquet := (parquet w)(path \<mapsto> (partition_cols, df))\<rparr>)
                | Some (pc, old) \<Rightarrow>
                    (Inr (), w\<lparr>parquet := (parquet w)(path \<mapsto> (pc, old\<lparr>rows := rows old @ rows df\<rparr>))\<rparr>))
             else if mode = ''ignore'' then
               (case parquet w path of
                  None \<Rightarrow> (Inr (), w\<lparr>parquet := (parquet w)(path \<mapsto> (partition_cols, df))\<rparr>)
                | Some old \<Rightarrow> (Inr (), w))
             else if mode = ''error'' \<or> mode = ''errorifexists'' then
               (case parquet w path of
                  None \<Rightarrow> (Inr (), w\<lparr>parquet := (parquet w)(path \<mapsto> (partition_cols, df))\<rparr>)
                | Some old \<Rightarrow> (Inl (AnalysisException path), w))
             else (Inl (ValueError mode), w)))"

subsection \<open>\<^verbatim>\<open>create_spark_session\<close> (lines 16 to 24)\<close>

definition create_spark_session :: "session run" where
  "create_spark_session =
    bind (enter ''create_spark_session'') (\<lambda>_.
    ret (SparkSession [(''spark.jars.packages'', ''org.apache.hadoop:hadoop-aws:2.7.0'')]))"

subsection \<open>\<^verbatim>\<open>process_song_data\<close> (lines 27 to 68)\<close>

text \<open>
  Line 42 builds the glob \<^verbatim>\<open>input_data + 'song_data/*/*/*.json'\<close> and binds it to
  \<^verbatim>\<open>song_data\<close>; line 45 reads the literal path \<^verbatim>\<open>'song_data'\<close>. Line 48 is
  \<open>songs_table_of\<close>, line 61 is \<open>artists_table_of\<close>. Line 52 reads the name
  \<^verbatim>\<open>songs_tables\<close> and line 64 the name \<^verbatim>\<open>artist_table\<close>; the function binds
  \<^verbatim>\<open>songs_table\<close> and \<^verbatim>\<open>artists_table\<close>.
\<close>

definition songs_table_of :: "dataframe \<Rightarrow> dataframe run" where
  "songs_table_of df =
    bind (df_select df [''song_id'', ''title'', ''artist_id'', ''year'', ''duration''])
      (\<lambda>selected. ret (df_dropDuplicates selected))"

definition artists_table_of :: "dataframe \<Rightarrow> dataframe run" where
  "artists_table_of df =
    bind (df_select df [''artist_id'', ''artist_name'', ''artist_location'',
                        ''artist_latitude'', ''artist_longitude''])
      (\<lambda>selected. ret (df_dropDuplicates selected))"

definition process_song_data :: "session \<Rightarrow> string \<Rightarrow> string \<Rightarrow> unit run" where
  "process_song_data spark input_data output_data =
    bind (enter ''process_song_data'') (\<lambda>_.
    let song_data = input_data @ ''song_data/*/*/*.json'' in
    bind (read_json spark ''song_data'') (\<lambda>df.
    bind (songs_table_of df) (\<lambda>songs_table.
    bind (df_printSchema songs_table) (\<lambda>_.
    bind (load_global ''songs_tables'') (\<lambda>songs_tables.
    bind (obj_show songs_tables [''truncate'']) (\<lambda>_.
    bind (df_createOrReplaceTempView songs_table ''songs'') (\<lambda>_.
    bind (write_parquet songs_table [''year'', ''artist_id'']
            (os_path_join output_data ''songs_table.parquet'') ''overwrite'') (\<lambda>_.
    bind (artists_table_of df) (\<lambda>artists_table.
    bind (df_printSchema artists_table) (\<lambda>_.
    bind (load_global ''artist_table'') (\<lambda>artist_table.
    bind (obj_show artist_table [''truncated'']) (\<lambda>_.
    write_parquet artists_table []
      (os_path_join output_data ''artists_table.parquet'') ''overwrite''))))))))))))"

subsection \<open>\<^verbatim>\<open>process_log_data\<close> (lines 71 to 155)\<close>

text \<open>Lines 88 to 94: read the activity log and keep the rows whose page is \<^verbatim>\<open>NextSong\<close>.\<close>

definition filter_log_data :: "session \<Rightarrow> string \<Rightarrow> dataframe run" where
  "filter_log_data spark input_data =
    (let log_data = input_data @ ''log_data/*.json'' in
     bind (read_json spark log_data) (\<lambda>df.
     bind (df_getattr df ''page'') (\<lambda>page.
     ret (df_filter_eq df page (Str ''NextSong'')))))"

text \<open>Line 97: the users table.\<close>

definition users_table_of :: "dataframe \<Rightarrow> dataframe run" where
  "users_table_of df =
    bind (df_select df [''userId'', ''firstName'', ''lastName'', ''gender'', ''level''])
      (\<lambda>selected. ret (df_dropDuplicates selected))"

text \<open>
  Lines 103 and 128: \<^verbatim>\<open>t.write.parquet(os.path.join(output, name), 'overwrite')\<close>. Python
  evaluates the arguments before the call, and the first of them reads the name
  \<^verbatim>\<open>output\<close>; the function's parameter is \<^verbatim>\<open>output_data\<close>.
\<close>

definition write_to_output :: "dataframe \<Rightarrow> string \<Rightarrow> unit run" where
  "write_to_output table name =
    bind (load_global ''output'') (\<lambda>output.
    bind (obj_path_join output name) (\<lambda>path.
    write_parquet table [] path ''overwrite''))"

text \<open>
  Lines 105 to 110 add two string columns computed from \<^verbatim>\<open>ts\<close> by user-defined
  functions: \<^verbatim>\<open>timestamp\<close> and \<^verbatim>\<open>date\<close>. The engine evaluates such a function when an
  action needs the column; the model evaluates it when the column is added.
\<close>

fun str_nat :: "nat \<Rightarrow> string" where
  "str_nat n =
    (if n < 10 then [''0123456789'' ! n]
     else str_nat (n div 10) @ [''0123456789'' ! (n mod 10)])"

declare str_nat.simps [simp del]

definition str_int :: "int \<Rightarrow> string" where
  "str_int i = (if i < 0 then CHR ''-'' # str_nat (nat (- i)) else str_nat (nat i))"

text \<open>\<^verbatim>\<open>int(f)\<close> on a double: the integer towards zero.\<close>

definition truncate_real :: "real \<Rightarrow> int" where
  "truncate_real r = (if 0 \<le> r then \<lfloor>r\<rfloor> else \<lceil>r\<rceil>)"

text \<open>
  \<^verbatim>\<open>lambda x: str(int(x/1000))\<close>. The cell reaches the function as \<^verbatim>\<open>None\<close>, a
  \<^verbatim>\<open>str\<close>, an \<^verbatim>\<open>int\<close> or a \<^verbatim>\<open>float\<close>. \<^verbatim>\<open>x/1000\<close> is Python's true division: the
  double nearest to the exact quotient, an \<^verbatim>\<open>OverflowError\<close> when an integer quotient
  is beyond the doubles, a \<^verbatim>\<open>TypeError\<close> for \<^verbatim>\<open>None\<close> and for a string. \<^verbatim>\<open>int\<close> of
  the double rounds towards zero (and raises \<^verbatim>\<open>OverflowError\<close> on an infinite one),
  \<^verbatim>\<open>str\<close> writes the integer in decimal.
\<close>

definition get_timestamp :: "world \<Rightarrow> val \<Rightarrow> error + val" where
  "get_timestamp w x =
    (case x of
       Null \<Rightarrow> Inl (PythonException ''TypeError'')
     | Str s \<Rightarrow> Inl (PythonException ''TypeError'')
     | Long n \<Rightarrow>
        (case float_of_real w (real_of_int n / 1000) of
           None \<Rightarrow> Inl (PythonException ''OverflowError'')
         | Some q \<Rightarrow> Inr (Str (str_int (truncate_real q))))
     | Double d \<Rightarrow>
        (case float_of_real w (d / 1000) of
           None \<Rightarrow> Inl (PythonException ''OverflowError'')
         | Some q \<Rightarrow> Inr (Str (str_int (truncate_real q)))))"

text \<open>
  \<^verbatim>\<open>int(x)\<close> on a cell: the integer itself, a double rounded towards zero, a string
  parsed (\<^verbatim>\<open>ValueError\<close> when it is no integer literal), a \<^verbatim>\<open>TypeError\<close> for \<^verbatim>\<open>None\<close>.
\<close>

definition py_int :: "world \<Rightarrow> val \<Rightarrow> error + int" where
  "py_int w x =
    (case x of
       Null \<Rightarrow> Inl (PythonException ''TypeError'')
     | Str s \<Rightarrow>
        (case int_of_str w s of
           None \<Rightarrow> Inl (PythonException ''ValueError'')
         | Some n \<Rightarrow> Inr n)
     | Long n \<Rightarrow> Inr n
     | Double d \<Rightarrow> Inr (truncate_real d))"

text \<open>
  \<^verbatim>\<open>lambda x: str(datetime.fromtimestamp(int(x) / 1000))\<close>: \<^verbatim>\<open>int(x)\<close>, divided by 1000
  as a double, given to \<^verbatim>\<open>datetime.fromtimestamp\<close>, which raises for a time out of its
  range, and written with \<^verbatim>\<open>str\<close>.
\<close>

definition get_datetime :: "world \<Rightarrow> val \<Rightarrow> error + val" where
  "get_datetime w x =
    (case py_int w x of
       Inl e \<Rightarrow> Inl e
     | Inr n \<Rightarrow>
        (case float_of_real w (real_of_int n / 1000) of
           None \<Rightarrow> Inl (PythonException ''OverflowError'')
         | Some t \<Rightarrow>
            (case fromtimestamp_str w t of
               Inl e \<Rightarrow> Inl e
             | Inr s \<Rightarrow> Inr (Str s))))"

fun sequence :: "(error + 'a) list \<Rightarrow> error + 'a list" where
  "sequence [] = Inr []"
| "sequence (x # xs) =
    (case x of
       Inl e \<Rightarrow> Inl e
     | Inr v \<Rightarrow> (case sequence xs of Inl e \<Rightarrow> Inl e | Inr vs \<Rightarrow> Inr (v # vs)))"

text \<open>Setting column \<open>name\<close> to the cells \<open>vs\<close>: replaced when it exists, appended otherwise.\<close>

definition set_column :: "dataframe \<Rightarrow> string \<Rightarrow> val list \<Rightarrow> dataframe" where
  "set_column df name vs =
    (if name \<in> set (columns df) then
       df\<lparr>rows := map (\<lambda>(r, v). map (\<lambda>(c, x). if c = name then v else x) (zip (columns df) r))
                      (zip (rows df) vs)\<rparr>
     else
       df\<lparr>columns := columns df @ [name], rows := map (\<lambda>(r, v). r @ [v]) (zip (rows df) vs)\<rparr>)"

text \<open>\<^verbatim>\<open>df.withColumn(name, f(src))\<close>: column \<open>name\<close> becomes \<open>f\<close> of column \<open>src\<close>.\<close>

definition df_withColumn :: "dataframe \<Rightarrow> string \<Rightarrow> string \<Rightarrow> (val \<Rightarrow> error + val) \<Rightarrow> dataframe run" where
  "df_withColumn df name src f =
    (case find (\<lambda>n. n \<notin> set (columns df)) [src] of
       Some n \<Rightarrow> raise (AnalysisException n)
     | None \<Rightarrow>
        (case sequence (map (\<lambda>r. f (cell (columns df) r src)) (rows df)) of
           Inl e \<Rightarrow> raise e
         | Inr vs \<Rightarrow> ret (set_column df name vs)))"

definition df_withColumn_sql :: "dataframe \<Rightarrow> string \<Rightarrow> string \<Rightarrow> string \<Rightarrow> dataframe run" where
  "df_withColumn_sql df name f src =
    (\<lambda>w. df_withColumn df name src (\<lambda>v. Inr (sql_function w f v)) w)"

definition timestamp_columns :: "dataframe \<Rightarrow> dataframe run" where
  "timestamp_columns df =
    bind (df_getattr df ''ts'') (\<lambda>ts.
    bind (\<lambda>w. df_withColumn df ''timestamp'' ts (get_timestamp w) w) (\<lambda>df.
    bind (df_getattr df ''ts'') (\<lambda>ts.
    (\<lambda>w. df_withColumn df ''date'' ts (get_datetime w) w))))"

text \<open>
  Lines 113 to 122: the time table. The statement selects the column \<^verbatim>\<open>datetime\<close> and
  reads \<^verbatim>\<open>df.datetime\<close>; its last column calls \<^verbatim>\<open>dayofweek\<close>, which line 6 does not
  import. The calls of the chain are evaluated from left to right.
\<close>

definition time_table_of :: "dataframe \<Rightarrow> dataframe run" where
  "time_table_of df =
    bind (df_select df [''datetime'']) (\<lambda>t.
    bind (df_getattr df ''datetime'') (\<lambda>datetime.
    bind (df_withColumn t ''start_time'' datetime Inr) (\<lambda>t.
    bind (df_withColumn_sql t ''hour'' ''hour'' ''datetime'') (\<lambda>t.
    bind (df_withColumn_sql t ''day'' ''dayofmonth'' ''datetime'') (\<lambda>t.
    bind (df_withColumn_sql t ''week'' ''weekofyear'' ''datetime'') (\<lambda>t.
    bind (df_withColumn_sql t ''month'' ''month'' ''datetime'') (\<lambda>t.
    bind (df_withColumn_sql t ''year'' ''year'' ''datetime'') (\<lambda>t.
    bind (load_global ''dayofweek'') (\<lambda>dayofweek.
    bind (obj_column_function dayofweek) (\<lambda>f.
    bind (df_withColumn t ''weekday'' ''datetime'' (\<lambda>v. Inr (f v))) (\<lambda>t.
    ret (df_dropDuplicates t))))))))))))"

text \<open>
  Line 134: \<^verbatim>\<open>df.join(song_df, col(df.artist)==col(song_df.artist_id) & col(df.song)==col(song_df.title))\<close>,
  where line 131 has bound \<^verbatim>\<open>song_df\<close> to the string \<^verbatim>\<open>input_data + 'song_data/*/*/*/*.json'\<close>.
  Python evaluates the arguments first. \<^verbatim>\<open>&\<close> binds tighter than \<^verbatim>\<open>==\<close>, so the condition
  is the chained comparison \<^verbatim>\<open>a == (b & c) == d\<close> with \<open>a\<close> = \<^verbatim>\<open>col(df.artist)\<close>,
  \<open>b\<close> = \<^verbatim>\<open>col(song_df.artist_id)\<close>, \<open>c\<close> = \<^verbatim>\<open>col(df.song)\<close>, \<open>d\<close> = \<^verbatim>\<open>col(song_df.title)\<close>:
  \<open>a\<close>, \<open>b\<close> and \<open>c\<close> are evaluated in this order, then \<^verbatim>\<open>a == (b & c)\<close> is asked for its
  truth value, which a column expression refuses with \<^verbatim>\<open>ValueError\<close>. \<^verbatim>\<open>col\<close> takes the
  name of a column; given a column object the bridge to the engine fails. A string has
  no attribute \<^verbatim>\<open>artist_id\<close>. The statement has no path on which it returns.
\<close>

definition sql_col_of_column :: "string \<Rightarrow> string run" where
  "sql_col_of_column c = raise (Py4JError ''col'')"

definition str_artist_id :: "string \<Rightarrow> string run" where
  "str_artist_id s = raise (AttributeError ''artist_id'')"

definition join_table_of :: "dataframe \<Rightarrow> string \<Rightarrow> dataframe run" where
  "join_table_of df song_df =
    bind (df_getattr df ''artist'') (\<lambda>artist.
    bind (sql_col_of_column artist) (\<lambda>a.
    bind (str_artist_id song_df) (\<lambda>artist_id.
    bind (sql_col_of_column artist_id) (\<lambda>b.
    bind (df_getattr df ''song'') (\<lambda>song.
    bind (sql_col_of_column song) (\<lambda>c.
    raise (ValueError ''Cannot convert column into bool'')))))))"

text \<open>
  Lines 136 to 147: the songplays table. \<^verbatim>\<open>select\<close> takes ten expressions, each a
  source column, a function of it (the identity for \<^verbatim>\<open>col\<close>) and an alias; then
  \<^verbatim>\<open>withColumn('songplay_id', monotonically_increasing_id())\<close>, a name that line 5 and
  line 6 do not import.
\<close>

definition df_select_as :: "dataframe \<Rightarrow> (string \<times> (val \<Rightarrow> val) \<times> string) list \<Rightarrow> dataframe run" where
  "df_select_as df items =
    (case find (\<lambda>n. n \<notin> set (columns df)) (map fst items) of
       Some n \<Rightarrow> raise (AnalysisException n)
     | None \<Rightarrow>
        ret \<lparr>columns = map (\<lambda>(src, f, alias). alias) items,
             rows = map (\<lambda>r. map (\<lambda>(src, f, alias). f (cell (columns df) r src)) items) (rows df)\<rparr>)"

definition df_withColumn_ids :: "dataframe \<Rightarrow> string \<Rightarrow> (nat \<Rightarrow> val) \<Rightarrow> dataframe" where
  "df_withColumn_ids df name gen = set_column df name (map gen [0 ..< length (rows df)])"

definition songplays_table_of :: "dataframe \<Rightarrow> dataframe run" where
  "songplays_table_of join_table =
    bind (\<lambda>w. df_select_as join_table
            [(''join_table.datetime'', id, ''start_time''),
             (''join_table.userId'', id, ''user_id''),
             (''join_table.level'', id, ''level''),
             (''join_table.song_id'', id, ''song_id''),
             (''join_table.artist_id'', id, ''artist_id''),
             (''join_table.sessionId'', id, ''session_id''),
             (''join_table.location'', id, ''location''),
             (''join_table.userAgent'', id, ''user_agent''),
             (''join_table.datetime'', sql_function w ''year'', ''year''),
             (''join_table.datetime'', sql_function w ''month'', ''month'')] w) (\<lambda>selected.
    bind (load_global ''monotonically_increasing_id'') (\<lambda>monotonically_increasing_id.
    bind (obj_id_generator monotonically_increasing_id) (\<lambda>gen.
    ret (df_withColumn_ids selected ''songplay_id'' gen))))"

definition process_log_data :: "session \<Rightarrow> string \<Rightarrow> string \<Rightarrow> unit run" where
  "process_log_data spark input_data output_data =
    bind (enter ''process_log_data'') (\<lambda>_.
    bind (filter_log_data spark input_data) (\<lambda>df.
    bind (users_table_of df) (\<lambda>users_table.
    bind (df_printSchema users_table) (\<lambda>_.
    bind (df_show users_table [''truncated'']) (\<lambda>_.
    bind (write_to_output users_table ''users_table.parquet'') (\<lambda>_.
    bind (timestamp_columns df) (\<lambda>df.
    bind (time_table_of df) (\<lambda>time_table.
    bind (df_printSchema time_table) (\<lambda>_.
    bind (df_show time_table [''truncated'']) (\<lambda>_.
    bind (write_to_output time_table ''time_table.parquet'') (\<lambda>_.
    let song_df = input_data @ ''song_data/*/*/*/*.json'' in
    bind (join_table_of df song_df) (\<lambda>join_table.
    bind (songplays_table_of join_table) (\<lambda>songplays_table.
    bind (df_printSchema songplays_table) (\<lambda>_.
    bind (df_show songplays_table [''truncated'']) (\<lambda>_.
    write_parquet songplays_table [''year'', ''month'']
      (os_path_join output_data ''songplays_table.parquet'') ''overwrite'')))))))))))))))"

subsection \<open>The module's top level (lines 9 to 13) and \<^verbatim>\<open>main\<close> (lines 158 to 164)\<close>

text \<open>\<^verbatim>\<open>config[section][key]\<close>: a \<^verbatim>\<open>KeyError\<close> for a missing section or key.\<close>

definition config_get :: "string \<Rightarrow> string \<Rightarrow> string run" where
  "config_get section key =
    (\<lambda>w. case config w section of
           None \<Rightarrow> (Inl (KeyError section), w)
         | Some sec \<Rightarrow>
            (case sec key of
               None \<Rightarrow> (Inl (KeyError key), w)
             | Some v \<Rightarrow> (Inr v, w)))"

definition setenv :: "string \<Rightarrow> string \<Rightarrow> unit run" where
  "setenv k v = (\<lambda>w. (Inr (), w\<lparr>environ := (environ w)(k \<mapsto> v)\<rparr>))"

definition module_init :: "unit run" where
  "module_init =
    bind (config_get ''AWS'' ''AWS_ACCESS_KEY_ID'') (\<lambda>key.
    bind (setenv ''AWS_ACCESS_KEY_ID'' key) (\<lambda>_.
    bind (config_get ''AWS'' ''AWS_SECRET_ACCESS_KEY'') (\<lambda>secret.
    setenv ''AWS_SECRET_ACCESS_KEY'' secret)))"

text \<open>
  \<^verbatim>\<open>main\<close> takes no argument. Line 163, the call of \<^verbatim>\<open>process_song_data\<close>, is a
  comment.
\<close>

definition main :: "unit run" where
  "main =
    bind (enter ''main'') (\<lambda>_.
    bind create_spark_session (\<lambda>spark.
    let input_data = ''s3a://udacity-dend/'' in
    bind (config_get ''S3'' ''OUTPUT_DATA'') (\<lambda>output_data.
    process_log_data spark input_data output_data)))"

text \<open>Running the script: the top level, then \<^verbatim>\<open>main\<close> (lines 167 and 168).\<close>

definition script :: "unit run" where
  "script = bind module_init (\<lambda>_. main)"

subsection \<open>Sample inputs\<close>

text \<open>
  A configuration with an output location, an activity log of four events and a song
  catalog that holds the same record twice. In the log, user 15 plays two songs on the
  paid tier and one on the free tier, and user 8 opens the home page.
\<close>

definition sample_config :: "string \<Rightarrow> (string \<Rightarrow> string option) option" where
  "sample_config =
    [''AWS'' \<mapsto> [''AWS_ACCESS_KEY_ID'' \<mapsto> ''id'', ''AWS_SECRET_ACCESS_KEY'' \<mapsto> ''secret''],
     ''S3'' \<mapsto> [''OUTPUT_DATA'' \<mapsto> ''s3a://lake/'']]"

definition log_columns :: "string list" where
  "log_columns =
    [''artist'', ''firstName'', ''gender'', ''lastName'', ''level'', ''location'',
     ''page'', ''sessionId'', ''song'', ''ts'', ''userAgent'', ''userId'']"

definition sample_log :: dataframe where
  "sample_log =
    \<lparr>columns = log_columns,
     rows =
      [[Str ''Elvis Presley'', Str ''Lily'', Str ''F'', Str ''Koch'', Str ''paid'', Str ''Chicago'',
        Str ''NextSong'', Long 818, Str ''Hound Dog'', Long 1541106106796, Str ''Mozilla'', Str ''15''],
       [Null, Str ''Theo'', Str ''M'', Str ''Ford'', Str ''free'', Str ''Tampa'',
        Str ''Home'', Long 52, Null, Long 1541106132796, Str ''Mozilla'', Str ''8''],
       [Str ''Seal'', Str ''Lily'', Str ''F'', Str ''Koch'', Str ''free'', Str ''Chicago'',
        Str ''NextSong'', Long 139, Str ''Crazy'', Long 1541000000000, Str ''Mozilla'', Str ''15''],
       [Str ''Mr Oizo'', Str ''Lily'', Str ''F'', Str ''Koch'', Str ''paid'', Str ''Chicago'',
        Str ''NextSong'', Long 818, Str ''Flat 55'', Long 1541106352796, Str ''Mozilla'', Str ''15'']]\<rparr>"

definition song_columns :: "string list" where
  "song_columns =
    [''artist_id'', ''artist_latitude'', ''artist_location'', ''artist_longitude'',
     ''artist_name'', ''duration'', ''num_songs'', ''song_id'', ''title'', ''year'']"

definition hound_dog :: "val list" where
  "hound_dog =
    [Str ''AR5KOSW1187FB35FF4'', Long 34, Str ''Tupelo, MS'', Long (- 88),
     Str ''Elvis Presley'', Long 136, Long 1, Str ''SOHOUND12AB0181234'', Str ''Hound Dog'',
     Long 1956]"

definition sample_catalog :: dataframe where
  "sample_catalog = \<lparr>columns = song_columns, rows = [hound_dog, hound_dog]\<rparr>"

definition sample_session :: session where
  "sample_session = SparkSession [(''spark.jars.packages'', ''org.apache.hadoop:hadoop-aws:2.7.0'')]"

text \<open>
  The worker of the sample, at the arguments that the three plays of the sample log
  lead to: the doubles nearest to their second counts, the rendering of these doubles on
  a worker whose time zone is UTC, and the calendar fields of the rendered strings (a
  cell that is no timestamp has null fields). No cell of the sample's \<^verbatim>\<open>ts\<close> column is a
  string.
\<close>

definition sample_float_of_real :: "real \<Rightarrow> real option" where
  "sample_float_of_real r =
    (if r = 1541106106796 / 1000 then Some (3231933754079445 / 2097152)
     else if r = 1541000000000 / 1000 then Some 1541000000
     else if r = 1541106352796 / 1000 then Some (3231934269978837 / 2097152)
     else None)"

definition sample_fromtimestamp_str :: "real \<Rightarrow> error + string" where
  "sample_fromtimestamp_str t =
    (if t = 3231933754079445 / 2097152 then Inr ''2018-11-01 21:01:46.796000''
     else if t = 1541000000 then Inr ''2018-10-31 15:33:20''
     else if t = 3231934269978837 / 2097152 then Inr ''2018-11-01 21:05:52.796000''
     else Inl (PythonException ''OverflowError''))"

definition sample_calendar :: "string \<Rightarrow> val \<Rightarrow> val" where
  "sample_calendar f v =
    (if v = Str ''2018-11-01 21:01:46.796000'' \<or> v = Str ''2018-11-01 21:05:52.796000'' then
       (if f = ''hour'' then Long 21 else if f = ''dayofmonth'' then Long 1
        else if f = ''weekofyear'' then Long 44 else if f = ''month'' then Long 11
        else if f = ''year'' then Long 2018 else Null)
     else if v = Str ''2018-10-31 15:33:20'' then
       (if f = ''hour'' then Long 15 else if f = ''dayofmonth'' then Long 31
        else if f = ''weekofyear'' then Long 44 else if f = ''month'' then Long 10
        else if f = ''year'' then Long 2018 else Null)
     else Null)"

text \<open>
  The world before the run: the log under the glob that line 88 builds from
  \<^verbatim>\<open>main\<close>'s input location, the catalog under the literal path of line 45 and under
  the two globs of lines 42 and 131, and an empty output storage.
\<close>

definition sample_world :: world where
  "sample_world =
    \<lparr>config = sample_config,
     environ = Map.empty,
     json = [''s3a://udacity-dend/log_data/*.json'' \<mapsto> sample_log,
             ''song_data'' \<mapsto> sample_catalog,
             ''s3a://udacity-dend/song_data/*/*/*.json'' \<mapsto> sample_catalog,
             ''s3a://udacity-dend/song_data/*/*/*/*.json'' \<mapsto> sample_catalog],
     parquet = Map.empty,
     views = Map.empty,
     calls = [],
     float_of_real = sample_float_of_real,
     int_of_str = (\<lambda>s. None),
     fromtimestamp_str = sample_fromtimestamp_str,
     sql_function = sample_calendar\<rparr>"

text \<open>The same world with a users table already at its destination.\<close>

definition stale_users :: dataframe where
  "stale_users =
    \<lparr>columns = [''userId'', ''firstName'', ''lastName'', ''gender'', ''level''],
     rows = [[Str ''99'', Str ''Old'', Str ''Row'', Str ''M'', Str ''free'']]\<rparr>"

definition stale_world :: world where
  "stale_world = sample_world\<lparr>parquet := [''s3a://lake/users_table.parquet'' \<mapsto> ([], stale_users)]\<rparr>"


section \<open>Properties\<close>

subsection \<open>Sequencing and name resolution\<close>

lemma bind_raise: "bind (raise e) k = raise e"
  by (simp add: bind_def raise_def)

lemma bind_ret: "bind (ret x) k = k x"
  by (simp add: bind_def ret_def)

text \<open>The five names that the function bodies read and nothing binds.\<close>

lemma load_global_unbound:
  "load_global ''songs_tables'' = raise (NameError ''songs_tables'')"
  "load_global ''artist_table'' = raise (NameError ''artist_table'')"
  "load_global ''output'' = raise (NameError ''output'')"
  "load_global ''dayofweek'' = raise (NameError ''dayofweek'')"
  "load_global ''monotonically_increasing_id'' = raise (NameError ''monotonically_increasing_id'')"
  by (simp_all add: load_global_def module_globals_def python_builtins_def)

lemma df_show_truncated: "df_show df [''truncated''] = raise (TypeError ''truncated'')"
  by (simp add: df_show_def)

lemma write_to_output_raises:
  "write_to_output table name w = (Inl (NameError ''output''), w)"
  by (simp add: write_to_output_def load_global_unbound bind_def raise_def)

subsection \<open>How each branch ends\<close>

text \<open>
  \<^verbatim>\<open>process_song_data\<close> ends at its read when the path \<^verbatim>\<open>song_data\<close> does not exist, at
  its projection when a column is missing, and at line 52 otherwise. In each case the
  world it leaves differs from the one it found by the recorded call only.
\<close>

lemma process_song_data_outcome:
  "process_song_data spark i out w =
    (case json w ''song_data'' of
       None \<Rightarrow> (Inl (AnalysisException ''song_data''), w\<lparr>calls := calls w @ [''process_song_data'']\<rparr>)
     | Some d \<Rightarrow>
        (case find (\<lambda>n. n \<notin> set (columns d))
                [''song_id'', ''title'', ''artist_id'', ''year'', ''duration''] of
           Some n \<Rightarrow> (Inl (AnalysisException n), w\<lparr>calls := calls w @ [''process_song_data'']\<rparr>)
         | None \<Rightarrow> (Inl (NameError ''songs_tables''), w\<lparr>calls := calls w @ [''process_song_data'']\<rparr>)))"
  by (simp add: process_song_data_def Let_def load_global_unbound bind_raise bind_def enter_def
      read_json_def songs_table_of_def df_select_def ret_def raise_def df_printSchema_def
      split: option.splits del: find.simps)

text \<open>
  \<^verbatim>\<open>process_log_data\<close> ends at its read, at \<^verbatim>\<open>df.page\<close>, at the projection of the users
  table, or at line 99, the call \<^verbatim>\<open>users_table.show(5,truncated=False)\<close>.
\<close>

lemma process_log_data_outcome:
  "process_log_data spark i out w =
    (case json w (i @ ''log_data/*.json'') of
       None \<Rightarrow> (Inl (AnalysisException (i @ ''log_data/*.json'')), w\<lparr>calls := calls w @ [''process_log_data'']\<rparr>)
     | Some d \<Rightarrow>
        (if ''page'' \<in> set (columns d) then
          (case find (\<lambda>n. n \<notin> set (columns d))
                  [''userId'', ''firstName'', ''lastName'', ''gender'', ''level''] of
             Some n \<Rightarrow> (Inl (AnalysisException n), w\<lparr>calls := calls w @ [''process_log_data'']\<rparr>)
           | None \<Rightarrow> (Inl (TypeError ''truncated''), w\<lparr>calls := calls w @ [''process_log_data'']\<rparr>))
         else (Inl (AttributeError ''page''), w\<lparr>calls := calls w @ [''process_log_data'']\<rparr>)))"
  by (simp add: process_log_data_def filter_log_data_def Let_def df_show_truncated bind_raise
      bind_def enter_def read_json_def users_table_of_def df_select_def ret_def raise_def
      df_printSchema_def df_getattr_def df_filter_eq_def
      split: option.splits del: find.simps)

subsection \<open>Projection and deduplication\<close>

lemma find_None_subset: "find (\<lambda>n. n \<notin> S) names = None \<longleftrightarrow> set names \<subseteq> S"
  by (auto simp: find_None_iff)

text \<open>
  \<^verbatim>\<open>df.select(names).dropDuplicates()\<close> on a frame that has the columns: the projected
  rows, each once.
\<close>

lemma select_dedup:
  assumes "set names \<subseteq> set (columns df)"
  shows "bind (df_select df names) (\<lambda>selected. ret (df_dropDuplicates selected)) w =
          (Inr \<lparr>columns = names, rows = remdups (map (project (columns df) names) (rows df))\<rparr>, w)"
proof -
  have "find (\<lambda>n. n \<notin> set (columns df)) names = None"
    using assms by (simp add: find_None_subset)
  then show ?thesis
    by (simp add: df_select_def bind_def df_dropDuplicates_def ret_def)
qed

text \<open>
  Line 97 taken alone: on every filtered activity log that has the five columns the
  statement returns a frame with exactly these columns, whose rows are pairwise distinct
  and are exactly the (userId, firstName, lastName, gender, level) tuples of the log.
\<close>

lemma users_table_of_distinct:
  assumes "set [''userId'', ''firstName'', ''lastName'', ''gender'', ''level''] \<subseteq> set (columns df)"
  shows "\<exists>users_table. users_table_of df w = (Inr users_table, w) \<and>
           columns users_table = [''userId'', ''firstName'', ''lastName'', ''gender'', ''level''] \<and>
           distinct (rows users_table) \<and>
           set (rows users_table) =
             project (columns df) [''userId'', ''firstName'', ''lastName'', ''gender'', ''level'']
               ` set (rows df)"
  unfolding users_table_of_def select_dedup [OF assms] by simp

subsection \<open>What the branches leave behind\<close>


lemma process_log_data_parquet:
  "parquet (snd (process_log_data spark i out w)) = parquet w"
  by (simp add: process_log_data_outcome split: option.splits del: find.simps)

lemma process_song_data_parquet:
  "parquet (snd (process_song_data spark i out w)) = parquet w"
  by (simp add: process_song_data_outcome split: option.splits del: find.simps)

lemma process_log_data_raises: "\<exists>e. fst (process_log_data spark i out w) = Inl e"
  by (simp add: process_log_data_outcome split: option.splits del: find.simps)

lemma process_song_data_raises: "\<exists>e. fst (process_song_data spark i out w) = Inl e"
  by (simp add: process_song_data_outcome split: option.splits del: find.simps)

lemma main_parquet: "parquet (snd (main w)) = parquet w"
  by (simp add: main_def Let_def bind_def enter_def create_spark_session_def ret_def
      config_get_def process_log_data_parquet split: option.splits prod.splits sum.splits)

text \<open>The sample run of the activity-log branch stops at line 99.\<close>

lemma sample_run:
  "process_log_data sample_session ''s3a://udacity-dend/'' ''s3a://lake/'' sample_world =
     (Inl (TypeError ''truncated''), sample_world\<lparr>calls := [''process_log_data'']\<rparr>)"
  by (simp add: process_log_data_outcome sample_world_def sample_log_def log_columns_def)

lemma sample_plays:
  "filter_log_data sample_session ''s3a://udacity-dend/'' sample_world =
     (Inr (sample_log\<lparr>rows := [rows sample_log ! 0, rows sample_log ! 2, rows sample_log ! 3]\<rparr>),
      sample_world)"
  by (simp add: filter_log_data_def Let_def sample_world_def read_json_def bind_def df_getattr_def
      sample_log_def log_columns_def ret_def df_filter_eq_def cell_def)

subsection \<open>The statements after line 103\<close>

text \<open>
  The statements that build the time table, the join and the songplays table raise on
  every frame they are given, each for a reason of its own.
\<close>

lemma time_table_of_no_datetime:
  "''datetime'' \<notin> set (columns df) \<Longrightarrow>
     time_table_of df w = (Inl (AnalysisException ''datetime''), w)"
  by (simp add: time_table_of_def bind_def df_select_def raise_def)

lemma time_table_of_raises: "\<exists>e. time_table_of df w = (Inl e, w)"
  by (simp add: time_table_of_def bind_def df_select_def raise_def ret_def df_getattr_def
      df_withColumn_def df_withColumn_sql_def load_global_unbound
      split: option.splits sum.splits del: find.simps)

lemma join_table_of_raises: "\<exists>e. join_table_of df song_df w = (Inl e, w)"
  by (simp add: join_table_of_def bind_def df_getattr_def sql_col_of_column_def raise_def ret_def)

lemma songplays_table_of_raises: "\<exists>e. songplays_table_of join_table w = (Inl e, w)"
  by (simp add: songplays_table_of_def bind_def df_select_as_def load_global_unbound raise_def ret_def
      split: option.splits del: find.simps)

lemma sample_stamped:
  "timestamp_columns
     (sample_log\<lparr>rows := [rows sample_log ! 0, rows sample_log ! 2, rows sample_log ! 3]\<rparr>)
     sample_world =
    (Inr \<lparr>columns = log_columns @ [''timestamp'', ''date''],
          rows = [rows sample_log ! 0 @ [Str ''1541106106'', Str ''2018-11-01 21:01:46.796000''],
                  rows sample_log ! 2 @ [Str ''1541000000'', Str ''2018-10-31 15:33:20''],
                  rows sample_log ! 3 @ [Str ''1541106352'', Str ''2018-11-01 21:05:52.796000'']]\<rparr>,
     sample_world)"
proof -
  have stamp:
    "get_timestamp sample_world (Long 1541106106796) = Inr (Str ''1541106106'')"
    "get_timestamp sample_world (Long 1541000000000) = Inr (Str ''1541000000'')"
    "get_timestamp sample_world (Long 1541106352796) = Inr (Str ''1541106352'')"
    by (simp_all add: get_timestamp_def sample_world_def sample_float_of_real_def truncate_real_def
        str_int_def str_nat.simps)
  have date:
    "get_datetime sample_world (Long 1541106106796) = Inr (Str ''2018-11-01 21:01:46.796000'')"
    "get_datetime sample_world (Long 1541000000000) = Inr (Str ''2018-10-31 15:33:20'')"
    "get_datetime sample_world (Long 1541106352796) = Inr (Str ''2018-11-01 21:05:52.796000'')"
    by (simp_all add: get_datetime_def py_int_def sample_world_def sample_float_of_real_def
        sample_fromtimestamp_str_def)
  show ?thesis
    by (simp add: timestamp_columns_def bind_def df_getattr_def sample_log_def
        log_columns_def cell_def ret_def df_withColumn_def set_column_def stamp date)
qed

subsection \<open>The song-catalog branch\<close>

text \<open>
  Lines 48 and 61 taken alone: on a catalog that has the columns, each statement returns
  the projected rows, each once.
\<close>

lemma songs_table_of_distinct:
  assumes "set [''song_id'', ''title'', ''artist_id'', ''year'', ''duration''] \<subseteq> set (columns df)"
  shows "\<exists>t. songs_table_of df w = (Inr t, w) \<and> distinct (rows t) \<and>
           set (rows t) =
             project (columns df) [''song_id'', ''title'', ''artist_id'', ''year'', ''duration'']
               ` set (rows df)"
  unfolding songs_table_of_def select_dedup [OF assms] by simp

lemma artists_table_of_distinct:
  assumes "set [''artist_id'', ''artist_name'', ''artist_location'', ''artist_latitude'',
                ''artist_longitude''] \<subseteq> set (columns df)"
  shows "\<exists>t. artists_table_of df w = (Inr t, w) \<and> distinct (rows t) \<and>
           set (rows t) =
             project (columns df) [''artist_id'', ''artist_name'', ''artist_location'',
                                   ''artist_latitude'', ''artist_longitude'']
               ` set (rows df)"
  unfolding artists_table_of_def select_dedup [OF assms] by simp

text \<open>
  C3. The claim: the songs table and the artists table hold one row for each distinct
  tuple of the input, so two identical song records give one songs row. On the sample
  catalog, which holds the same record twice, \<^verbatim>\<open>process_song_data\<close> raises
  \<^verbatim>\<open>NameError\<close> for \<^verbatim>\<open>songs_tables\<close> at line 52: the world it leaves differs from the
  one it found by the recorded call only, so no songs view is registered, line 61 never
  builds an artists table and the output storage stays empty.
\<close>

theorem song_branch_on_identical_records:
  "rows sample_catalog = [hound_dog, hound_dog] \<and>
   process_song_data sample_session ''s3a://udacity-dend/'' ''s3a://lake/'' sample_world =
     (Inl (NameError ''songs_tables''), sample_world\<lparr>calls := [''process_song_data'']\<rparr>) \<and>
   parquet (sample_world\<lparr>calls := [''process_song_data'']\<rparr>) = Map.empty"
  by (simp add: process_song_data_outcome sample_world_def sample_catalog_def song_columns_def)

text \<open>
  C10. The result of \<^verbatim>\<open>process_song_data\<close> does not depend on its \<^verbatim>\<open>input_data\<close>
  argument: for any two values of it the function returns the same outcome and the same
  world. What it reads is the literal path \<^verbatim>\<open>song_data\<close>: two worlds that agree on what
  that path holds give the same outcome, whatever they hold under the glob that line 42
  builds.
\<close>

theorem process_song_data_ignores_input_data:
  "process_song_data spark input_data output_data w = process_song_data spark input_data' output_data w \<and>
   (\<forall>w'. json w' ''song_data'' = json w ''song_data'' \<longrightarrow>
      fst (process_song_data spark input_data output_data w')
        = fst (process_song_data spark input_data' output_data w))"
proof -
  have "process_song_data spark input_data output_data w = process_song_data spark input_data' output_data w"
    by (simp add: process_song_data_def Let_def)
  moreover have "fst (process_song_data spark input_data output_data w')
        = fst (process_song_data spark input_data' output_data w)"
    if "json w' ''song_data'' = json w ''song_data''" for w'
    using that by (simp add: process_song_data_outcome split: option.splits del: find.simps)
  ultimately show ?thesis
    by blast
qed

theorem process_song_data_ignores_input_data_witness:
  "process_song_data sample_session ''s3a://udacity-dend/'' ''s3a://lake/'' sample_world
     = process_song_data sample_session ''hdfs://elsewhere/'' ''s3a://lake/'' sample_world \<and>
   fst (process_song_data sample_session ''s3a://udacity-dend/'' ''s3a://lake/''
          (sample_world\<lparr>json := (json sample_world)(''s3a://udacity-dend/song_data/*/*/*.json'' := None)\<rparr>))
     = fst (process_song_data sample_session ''hdfs://elsewhere/'' ''s3a://lake/'' sample_world)"
  using process_song_data_ignores_input_data
          [of sample_session "''s3a://udacity-dend/''" "''s3a://lake/''" sample_world "''hdfs://elsewhere/''"]
  by (simp add: sample_world_def)

subsection \<open>The activity-log branch\<close>

text \<open>
  C2. A record of the activity log whose page is not \<^verbatim>\<open>NextSong\<close> is discarded: when
  the log can be read and has a \<^verbatim>\<open>page\<close> column, lines 88 to 94 return the frame whose
  rows are exactly the rows of the log with page \<^verbatim>\<open>NextSong\<close>; every users table built
  from that frame holds projections of such rows only; and the run stores no table at
  all, so no record reaches a users, time or songplays table in the output storage.
\<close>

theorem non_plays_are_discarded:
  assumes "json w (input_data @ ''log_data/*.json'') = Some d"
    and "''page'' \<in> set (columns d)"
  shows "\<exists>df. filter_log_data spark input_data w = (Inr df, w) \<and>
           columns df = columns d \<and>
           set (rows df) = {r \<in> set (rows d). cell (columns d) r ''page'' = Str ''NextSong''} \<and>
           (\<forall>users_table w1 w2. users_table_of df w1 = (Inr users_table, w2) \<longrightarrow>
              set (rows users_table) =
                project (columns d) [''userId'', ''firstName'', ''lastName'', ''gender'', ''level'']
                  ` {r \<in> set (rows d). cell (columns d) r ''page'' = Str ''NextSong''}) \<and>
           parquet (snd (process_log_data spark input_data output_data w)) = parquet w"
proof -
  let ?df = "df_filter_eq d ''page'' (Str ''NextSong'')"
  have run: "filter_log_data spark input_data w = (Inr ?df, w)"
    using assms
    by (simp add: filter_log_data_def Let_def read_json_def bind_def df_getattr_def ret_def)
  have cols: "columns ?df = columns d"
    by (simp add: df_filter_eq_def)
  have kept: "set (rows ?df) = {r \<in> set (rows d). cell (columns d) r ''page'' = Str ''NextSong''}"
    by (simp add: df_filter_eq_def)
  have users: "set (rows users_table) =
      project (columns d) [''userId'', ''firstName'', ''lastName'', ''gender'', ''level'']
        ` {r \<in> set (rows d). cell (columns d) r ''page'' = Str ''NextSong''}"
    if "users_table_of ?df w1 = (Inr users_table, w2)" for users_table w1 w2
  proof -
    from that have "rows users_table =
        remdups (map (project (columns ?df) [''userId'', ''firstName'', ''lastName'', ''gender'', ''level''])
                  (rows ?df))"
      by (auto simp: users_table_of_def df_select_def bind_def ret_def raise_def df_dropDuplicates_def
          split: option.splits simp del: find.simps)
    then show ?thesis
      by (simp add: cols kept del: find.simps)
  qed
  show ?thesis
    using run cols kept users process_log_data_parquet by blast
qed

theorem non_plays_are_discarded_witness:
  "\<exists>df. filter_log_data sample_session ''s3a://udacity-dend/'' sample_world = (Inr df, sample_world) \<and>
     rows sample_log ! 0 \<in> set (rows df) \<and>
     rows sample_log ! 1 \<notin> set (rows df) \<and>
     cell log_columns (rows sample_log ! 1) ''page'' = Str ''Home'' \<and>
     parquet (snd (process_log_data sample_session ''s3a://udacity-dend/'' ''s3a://lake/'' sample_world))
       = Map.empty"
proof -
  have log: "json sample_world (''s3a://udacity-dend/'' @ ''log_data/*.json'') = Some sample_log"
    by (simp add: sample_world_def)
  have page: "''page'' \<in> set (columns sample_log)"
    by (simp add: sample_log_def log_columns_def)
  have empty: "parquet sample_world = Map.empty"
    by (simp add: sample_world_def)
  from non_plays_are_discarded [OF log page, of sample_session "''s3a://lake/''"]
  obtain df where
    df: "filter_log_data sample_session ''s3a://udacity-dend/'' sample_world = (Inr df, sample_world)"
    and kept: "set (rows df) =
      {r \<in> set (rows sample_log). cell (columns sample_log) r ''page'' = Str ''NextSong''}"
    and store: "parquet (snd (process_log_data sample_session ''s3a://udacity-dend/'' ''s3a://lake/''
      sample_world)) = parquet sample_world"
    by auto
  have "rows sample_log ! 0 \<in> set (rows df)" "rows sample_log ! 1 \<notin> set (rows df)"
    unfolding kept by (simp_all add: sample_log_def log_columns_def cell_def)
  moreover have "cell log_columns (rows sample_log ! 1) ''page'' = Str ''Home''"
    by (simp add: sample_log_def log_columns_def cell_def)
  ultimately show ?thesis
    using df store empty by auto
qed

text \<open>
  On every input each branch ends in an error and leaves the output storage as it found
  it, so no songs, artists, users, time or songplays table is ever stored.
  \<^verbatim>\<open>process_song_data\<close> raises \<^verbatim>\<open>NameError\<close> for \<^verbatim>\<open>songs_tables\<close> whenever its read and
  its projection succeed. \<^verbatim>\<open>process_log_data\<close> raises \<^verbatim>\<open>TypeError\<close> at the \<^verbatim>\<open>show\<close> of
  line 99 whenever its read, its filter and its projection succeed. The write of lines
  103 and 128 raises \<^verbatim>\<open>NameError\<close> for \<^verbatim>\<open>output\<close> on every table and name and stores
  nothing.
\<close>

lemma no_branch_persists_a_table:
  "(\<exists>e. fst (process_song_data spark input_data output_data w) = Inl e) \<and>
   parquet (snd (process_song_data spark input_data output_data w)) = parquet w \<and>
   (\<exists>e. fst (process_log_data spark input_data output_data w) = Inl e) \<and>
   parquet (snd (process_log_data spark input_data output_data w)) = parquet w \<and>
   (\<forall>d. json w ''song_data'' = Some d \<longrightarrow>
        set [''song_id'', ''title'', ''artist_id'', ''year'', ''duration''] \<subseteq> set (columns d) \<longrightarrow>
        fst (process_song_data spark input_data output_data w) = Inl (NameError ''songs_tables'')) \<and>
   (\<forall>d. json w (input_data @ ''log_data/*.json'') = Some d \<longrightarrow>
        set [''page'', ''userId'', ''firstName'', ''lastName'', ''gender'', ''level'']
          \<subseteq> set (columns d) \<longrightarrow>
        fst (process_log_data spark input_data output_data w) = Inl (TypeError ''truncated'')) \<and>
   (\<forall>table name. write_to_output table name w = (Inl (NameError ''output''), w))"
proof -
  have song: "fst (process_song_data spark input_data output_data w) = Inl (NameError ''songs_tables'')"
    if "json w ''song_data'' = Some d"
      and "set [''song_id'', ''title'', ''artist_id'', ''year'', ''duration''] \<subseteq> set (columns d)"
    for d
  proof -
    have "find (\<lambda>n. n \<notin> set (columns d))
            [''song_id'', ''title'', ''artist_id'', ''year'', ''duration''] = None"
      using that(2) unfolding find_None_subset .
    then show ?thesis
      using that(1) by (simp add: process_song_data_outcome del: find.simps)
  qed
  have log: "fst (process_log_data spark input_data output_data w) = Inl (TypeError ''truncated'')"
    if "json w (input_data @ ''log_data/*.json'') = Some d"
      and "set [''page'', ''userId'', ''firstName'', ''lastName'', ''gender'', ''level'']
            \<subseteq> set (columns d)"
    for d
  proof -
    have "set [''userId'', ''firstName'', ''lastName'', ''gender'', ''level''] \<subseteq> set (columns d)"
      and page: "''page'' \<in> set (columns d)"
      using that(2) by simp_all
    then have "find (\<lambda>n. n \<notin> set (columns d))
                 [''userId'', ''firstName'', ''lastName'', ''gender'', ''level''] = None"
      unfolding find_None_subset by simp
    then show ?thesis
      using that(1) page by (simp add: process_log_data_outcome del: find.simps)
  qed
  show ?thesis
  proof (intro conjI allI impI)
    show "\<exists>e. fst (process_song_data spark input_data output_data w) = Inl e"
      by (rule process_song_data_raises)
    show "parquet (snd (process_song_data spark input_data output_data w)) = parquet w"
      by (rule process_song_data_parquet)
    show "\<exists>e. fst (process_log_data spark input_data output_data w) = Inl e"
      by (rule process_log_data_raises)
    show "parquet (snd (process_log_data spark input_data output_data w)) = parquet w"
      by (rule process_log_data_parquet)
    show "write_to_output table name w = (Inl (NameError ''output''), w)" for table name
      by (rule write_to_output_raises)
  qed (fact song log)+
qed

text \<open>
  C9. The claim: neither branch ever stores a table, since \<^verbatim>\<open>process_song_data\<close> reads
  the unbound name \<^verbatim>\<open>songs_tables\<close> and \<^verbatim>\<open>process_log_data\<close> reads the unbound name
  \<^verbatim>\<open>output\<close> at its first write, so every invocation ends in a name-resolution error.
  On the sample world \<^verbatim>\<open>process_song_data\<close> does end in the \<^verbatim>\<open>NameError\<close> of line 52,
  but \<^verbatim>\<open>process_log_data\<close> ends one statement before its first write, in a
  \<^verbatim>\<open>TypeError\<close>: line 99 calls \<^verbatim>\<open>users_table.show(5,truncated=False)\<close>, and \<^verbatim>\<open>show\<close>
  has no parameter \<^verbatim>\<open>truncated\<close> (line 52 passes \<^verbatim>\<open>truncate\<close>). Its error is no
  \<^verbatim>\<open>NameError\<close>, and the name \<^verbatim>\<open>output\<close> of line 103 is never evaluated. Neither run
  stores a table.
\<close>

theorem log_branch_ends_before_its_first_write:
  "process_log_data sample_session ''s3a://udacity-dend/'' ''s3a://lake/'' sample_world =
     (Inl (TypeError ''truncated''), sample_world\<lparr>calls := [''process_log_data'']\<rparr>) \<and>
   \<not> (\<exists>n. fst (process_log_data sample_session ''s3a://udacity-dend/'' ''s3a://lake/'' sample_world)
              = Inl (NameError n)) \<and>
   process_song_data sample_session ''s3a://udacity-dend/'' ''s3a://lake/'' sample_world =
     (Inl (NameError ''songs_tables''), sample_world\<lparr>calls := [''process_song_data'']\<rparr>) \<and>
   parquet sample_world = Map.empty"
proof -
  have "process_song_data sample_session ''s3a://udacity-dend/'' ''s3a://lake/'' sample_world =
     (Inl (NameError ''songs_tables''), sample_world\<lparr>calls := [''process_song_data'']\<rparr>)"
    by (simp add: process_song_data_outcome sample_world_def sample_catalog_def song_columns_def)
  moreover have "parquet sample_world = Map.empty"
    by (simp add: sample_world_def)
  ultimately show ?thesis
    by (simp add: sample_run)
qed

text \<open>
  C6. The claim: the users table holds one row for each distinct (user_id, first_name,
  last_name, gender, level) tuple of the filtered log. On the sample log, where user 15
  plays on the paid and on the free tier, the run ends at line 99, the
  \<^verbatim>\<open>show\<close> of the users frame that line 97 has declared: the world it leaves differs
  from the one it found by the recorded call only, and nothing is stored at the users
  destination. The write of line 103 raises on every table, so no run can store one.
\<close>

theorem users_table_is_never_produced:
  "process_log_data sample_session ''s3a://udacity-dend/'' ''s3a://lake/'' sample_world =
     (Inl (TypeError ''truncated''), sample_world\<lparr>calls := [''process_log_data'']\<rparr>) \<and>
   parquet (snd (process_log_data sample_session ''s3a://udacity-dend/'' ''s3a://lake/'' sample_world))
     ''s3a://lake/users_table.parquet'' = None \<and>
   (\<forall>table name w. write_to_output table name w = (Inl (NameError ''output''), w))"
proof -
  have "parquet (sample_world\<lparr>calls := [''process_log_data'']\<rparr>)
      ''s3a://lake/users_table.parquet'' = None"
    by (simp add: sample_world_def)
  then show ?thesis
    by (simp add: sample_run write_to_output_raises)
qed

text \<open>
  C4. The claim: the time table decomposes each play's timestamp consistently. On the
  sample log the run ends at line 99 and stores no time table. Lines 105 to 110, given
  the three plays, add the columns \<^verbatim>\<open>timestamp\<close> and \<^verbatim>\<open>date\<close>; the statement of lines
  113 to 122 selects the column \<^verbatim>\<open>datetime\<close>, which that frame does not have, and raises
  an \<^verbatim>\<open>AnalysisException\<close>. On any frame at all the statement raises, since its last
  column calls \<^verbatim>\<open>dayofweek\<close>, which nothing binds.
\<close>

theorem time_table_is_never_built:
  "fst (process_log_data sample_session ''s3a://udacity-dend/'' ''s3a://lake/'' sample_world)
     = Inl (TypeError ''truncated'') \<and>
   parquet (snd (process_log_data sample_session ''s3a://udacity-dend/'' ''s3a://lake/'' sample_world))
     ''s3a://lake/time_table.parquet'' = None \<and>
   (\<exists>plays stamped.
      filter_log_data sample_session ''s3a://udacity-dend/'' sample_world = (Inr plays, sample_world) \<and>
      timestamp_columns plays sample_world = (Inr stamped, sample_world) \<and>
      columns stamped = log_columns @ [''timestamp'', ''date''] \<and>
      time_table_of stamped sample_world = (Inl (AnalysisException ''datetime''), sample_world)) \<and>
   (\<forall>df w. \<exists>e. time_table_of df w = (Inl e, w))"
proof -
  have "time_table_of \<lparr>columns = log_columns @ [''timestamp'', ''date''], rows = rs\<rparr> sample_world
          = (Inl (AnalysisException ''datetime''), sample_world)" for rs
    by (rule time_table_of_no_datetime) (simp add: log_columns_def)
  moreover have "parquet (sample_world\<lparr>calls := [''process_log_data'']\<rparr>)
      ''s3a://lake/time_table.parquet'' = None"
    by (simp add: sample_world_def)
  ultimately show ?thesis
    using time_table_of_raises by (simp add: sample_run sample_plays sample_stamped)
qed

text \<open>
  C1. The claim: a play whose artist and song equal a catalog record's artist name and
  title gives one songplays row. The first row of the sample log is such a play of the
  sample catalog's record. The run ends at line 99 and stores no songplays table. The
  join of line 134, given the plays and the string that line 131 binds to \<^verbatim>\<open>song_df\<close>,
  raises; it raises on every frame, and it names the catalog's \<^verbatim>\<open>artist_id\<close>, not its
  artist name.
\<close>

theorem matched_play_yields_no_songplays_row:
  "cell log_columns (rows sample_log ! 0) ''artist'' = cell song_columns hound_dog ''artist_name'' \<and>
   cell log_columns (rows sample_log ! 0) ''song'' = cell song_columns hound_dog ''title'' \<and>
   fst (process_log_data sample_session ''s3a://udacity-dend/'' ''s3a://lake/'' sample_world)
     = Inl (TypeError ''truncated'') \<and>
   parquet (snd (process_log_data sample_session ''s3a://udacity-dend/'' ''s3a://lake/'' sample_world))
     ''s3a://lake/songplays_table.parquet'' = None \<and>
   (\<exists>plays e.
      filter_log_data sample_session ''s3a://udacity-dend/'' sample_world = (Inr plays, sample_world) \<and>
      rows sample_log ! 0 \<in> set (rows plays) \<and>
      join_table_of plays ''s3a://udacity-dend/song_data/*/*/*/*.json'' sample_world
        = (Inl e, sample_world)) \<and>
   (\<forall>df song_df w. \<exists>e. join_table_of df song_df w = (Inl e, w))"
proof -
  have "cell log_columns (rows sample_log ! 0) ''artist'' = cell song_columns hound_dog ''artist_name''"
    and "cell log_columns (rows sample_log ! 0) ''song'' = cell song_columns hound_dog ''title''"
    by (simp_all add: cell_def sample_log_def log_columns_def song_columns_def hound_dog_def)
  moreover have "parquet (sample_world\<lparr>calls := [''process_log_data'']\<rparr>)
      ''s3a://lake/songplays_table.parquet'' = None"
    by (simp add: sample_world_def)
  ultimately show ?thesis
    using join_table_of_raises by (simp add: sample_run sample_plays)
qed

text \<open>
  C5. The claim: every songplays row gets a synthetic identifier, distinct and
  increasing. The sample run ends at line 99 and stores no songplays table. The name
  \<^verbatim>\<open>monotonically_increasing_id\<close> of line 147 is bound nowhere, and the statement of
  lines 136 to 147 raises on every frame, so no run assigns an identifier to a row.
\<close>

theorem songplay_ids_are_never_assigned:
  "fst (process_log_data sample_session ''s3a://udacity-dend/'' ''s3a://lake/'' sample_world)
     = Inl (TypeError ''truncated'') \<and>
   parquet (snd (process_log_data sample_session ''s3a://udacity-dend/'' ''s3a://lake/'' sample_world))
     = Map.empty \<and>
   load_global ''monotonically_increasing_id'' sample_world
     = (Inl (NameError ''monotonically_increasing_id''), sample_world) \<and>
   (\<forall>join_table w. \<exists>e. songplays_table_of join_table w = (Inl e, w))"
proof -
  have "parquet (sample_world\<lparr>calls := [''process_log_data'']\<rparr>) = Map.empty"
    by (simp add: sample_world_def)
  then show ?thesis
    using songplays_table_of_raises by (simp add: sample_run load_global_unbound raise_def)
qed

subsection \<open>\<^verbatim>\<open>main\<close>\<close>




text \<open>
  A write of mode \<^verbatim>\<open>overwrite\<close>, when it runs, replaces what the destination holds.
\<close>

lemma write_parquet_overwrite:
  assumes "set partition_cols \<subseteq> set (columns df)"
  shows "write_parquet df partition_cols path ''overwrite'' w =
          (Inr (), w\<lparr>parquet := (parquet w)(path \<mapsto> (partition_cols, df))\<rparr>)"
proof -
  have "find (\<lambda>c. c \<notin> set (columns df)) partition_cols = None"
    using assms by (simp add: find_None_subset)
  then show ?thesis
    by (simp add: write_parquet_def)
qed

text \<open>
  C7. The claim: every write overwrites, so a rerun replaces what each destination
  held. In a world whose users destination already holds a table, \<^verbatim>\<open>main\<close> ends at
  line 99 with a \<^verbatim>\<open>TypeError\<close>; after one run and after two the destination still holds
  the old table, and the output storage is what it was before the first run.
\<close>

theorem rerun_replaces_nothing:
  "fst (main stale_world) = Inl (TypeError ''truncated'') \<and>
   parquet (snd (main stale_world)) ''s3a://lake/users_table.parquet'' = Some ([], stale_users) \<and>
   fst (main (snd (main stale_world))) = Inl (TypeError ''truncated'') \<and>
   parquet (snd (main (snd (main stale_world)))) = parquet stale_world"
proof -
  have once: "main stale_world =
      (Inl (TypeError ''truncated''),
       stale_world\<lparr>calls := [''main'', ''create_spark_session'', ''process_log_data'']\<rparr>)"
    by (simp add: main_def Let_def bind_def enter_def create_spark_session_def ret_def config_get_def
        process_log_data_outcome stale_world_def sample_world_def sample_config_def sample_log_def
        log_columns_def)
  have twice: "fst (main (stale_world\<lparr>calls := [''main'', ''create_spark_session'', ''process_log_data'']\<rparr>))
      = Inl (TypeError ''truncated'')"
    by (simp add: main_def Let_def bind_def enter_def create_spark_session_def ret_def config_get_def
        process_log_data_outcome stale_world_def sample_world_def sample_config_def sample_log_def
        log_columns_def)
  show ?thesis
    by (simp add: once twice main_parquet) (simp add: stale_world_def)
qed

end
